theory Spec2Isabelle
  imports Main "HOL-Library.Sublist"
begin

section \<open>Python strings\<close>

text \<open>
  A Python \<open>str\<close> is a sequence of Unicode code points, so it is modelled as a list of
  natural numbers (the code points), not as a list of 8-bit characters: \<open>str.strip\<close> and
  the regex class \<open>\s\<close> decide on code points (U+3000, the ideographic space of the
  Japanese page, is one code point and is whitespace). \<open>py\<close> turns an ASCII literal into
  its code points, \<open>ch\<close> a single character.
\<close>

type_synonym pystr = "nat list"

definition ch :: "char \<Rightarrow> nat" where
  "ch c = of_char c"

definition py :: "string \<Rightarrow> pystr" where
  "py s = map ch s"

text \<open>
  \<open>str.isspace\<close> of one code point (CPython's \<open>_PyUnicode_IsWhitespace\<close>); the same
  set is what \<open>str.strip()\<close> removes and what \<open>\s\<close> matches in a \<open>str\<close> pattern.
\<close>

definition isspace :: "nat \<Rightarrow> bool" where
  "isspace c \<longleftrightarrow>
     (9 \<le> c \<and> c \<le> 13) \<or> (28 \<le> c \<and> c \<le> 32) \<or> c = 133 \<or> c = 160 \<or> c = 5760 \<or>
     (8192 \<le> c \<and> c \<le> 8202) \<or> c = 8232 \<or> c = 8233 \<or> c = 8239 \<or> c = 8287 \<or> c = 12288"

definition lstrip :: "pystr \<Rightarrow> pystr" where
  "lstrip s = dropWhile isspace s"

definition rstrip :: "pystr \<Rightarrow> pystr" where
  "rstrip s = rev (dropWhile isspace (rev s))"

definition strip :: "pystr \<Rightarrow> pystr" where
  "strip s = rstrip (lstrip s)"

text \<open>\<open>sep.join(xs)\<close>.\<close>

fun join :: "pystr \<Rightarrow> pystr list \<Rightarrow> pystr" where
  "join sep [] = []"
| "join sep [x] = x"
| "join sep (x # y # ys) = x @ sep @ join sep (y # ys)"

text \<open>
  \<open>find_sub pat s\<close> cuts \<open>s\<close> at the leftmost occurrence of \<open>pat\<close>: the text before it
  and the text after it (\<open>str.partition\<close> without the separator), \<open>None\<close> when \<open>pat\<close>
  does not occur.
\<close>

fun find_sub :: "pystr \<Rightarrow> pystr \<Rightarrow> (pystr \<times> pystr) option" where
  "find_sub pat [] = (if pat = [] then Some ([], []) else None)"
| "find_sub pat (c # cs) =
     (if prefix pat (c # cs) then Some ([], drop (length pat) (c # cs))
      else (case find_sub pat cs of
              None \<Rightarrow> None
            | Some (before, after) \<Rightarrow> Some (c # before, after)))"

lemma find_sub_decomp:
  "find_sub pat s = Some (a, b) \<Longrightarrow> s = a @ pat @ b"
proof (induction s arbitrary: a b)
  case Nil
  then show ?case by (simp split: if_splits)
next
  case (Cons c cs)
  show ?case
  proof (cases "prefix pat (c # cs)")
    case True
    then obtain zs where zs: "c # cs = pat @ zs" by (auto simp: prefix_def)
    from True Cons.prems have "a = []" and "b = drop (length pat) (c # cs)" by simp_all
    then show ?thesis by (simp add: zs)
  next
    case False
    with Cons.prems obtain a' where "find_sub pat cs = Some (a', b)" and "a = c # a'"
      by (auto split: option.splits)
    with Cons.IH show ?thesis by auto
  qed
qed

lemma find_sub_shorter:
  "find_sub pat s = Some (a, b) \<Longrightarrow> length b + length pat \<le> length s"
  by (drule find_sub_decomp) simp

text \<open>
  \<open>s.split(sep)\<close> for a non-empty separator: both calls of the program pass a constant
  (\<open>LINEBREAK_MARKER\<close>, \<open>'\n'\<close>). Python raises \<open>ValueError\<close> on an empty separator;
  that call does not occur, and the model returns \<open>[s]\<close> there.
\<close>

function split :: "pystr \<Rightarrow> pystr \<Rightarrow> pystr list" where
  "split sep s =
     (if sep = [] then [s]
      else (case find_sub sep s of
              None \<Rightarrow> [s]
            | Some (before, after) \<Rightarrow> before # split sep after))"
  by pat_completeness auto
termination
proof (relation "measure (\<lambda>(sep, s). length s)")
  show "wf (measure (\<lambda>(sep, s). length s))" by simp
next
  fix sep s :: pystr and x2 before after
  assume "sep \<noteq> []" and "find_sub sep s = Some x2" and "(before, after) = x2"
  then have "length after + length sep \<le> length s" and "0 < length sep"
    using find_sub_shorter [of sep s before after] by auto
  then show "((sep, after), (sep, s)) \<in> measure (\<lambda>(sep, s). length s)"
    by (cases sep) simp_all
qed

declare split.simps [simp del]

text \<open>\<open>str(n)\<close> of a non-negative integer: its decimal digits.\<close>

fun str_nat :: "nat \<Rightarrow> pystr" where
  "str_nat n = (if n < 10 then [48 + n] else str_nat (n div 10) @ [48 + n mod 10])"

declare str_nat.simps [simp del]

section \<open>Constants\<close>

definition MIN_ITEMS_COUNT :: nat where
  "MIN_ITEMS_COUNT = 10"

definition LINEBREAK_MARKER :: pystr where
  "LINEBREAK_MARKER = py ''|||LINEBREAK|||''"

definition MARKDOWN_LINE_BREAK :: pystr where
  "MARKDOWN_LINE_BREAK = py ''  \<newline>''"

definition SECTION_SEPARATOR :: pystr where
  "SECTION_SEPARATOR = py ''\<newline>\<newline>''"

text \<open>The Japanese sentence of \<open>Constants.ERROR_MESSAGE\<close>, as its 30 code points.\<close>

definition ERROR_MESSAGE :: pystr where
  "ERROR_MESSAGE =
     [20104, 26399, 12379, 12396, 12456, 12521, 12540, 12395, 12424, 12426,
      12460, 12452, 12489, 12521, 12452, 12531, 12398, 20869, 23481, 12434,
      21462, 24471, 12391, 12365, 12414, 12379, 12435, 12391, 12375, 12383]"

section \<open>CompiledRegex\<close>

text \<open>
  Each pattern is used through \<open>sub\<close> only, which rewrites the leftmost match, goes on
  behind it, and copies one character where no match starts.

  \<open>BOLD_TAG = <b>(.*?)</b>\<close> with DOTALL: at a \<open><b>\<close>, the lazy group ends at the
  first \<open></b>\<close> behind it; the match is replaced by \<open>**\1**\<close>.
\<close>

function BOLD_TAG_sub :: "pystr \<Rightarrow> pystr" where
  "BOLD_TAG_sub [] = []"
| "BOLD_TAG_sub (c # cs) =
     (if prefix (py ''<b>'') (c # cs) then
        (case find_sub (py ''</b>'') (drop 3 (c # cs)) of
           Some (inner, rest) \<Rightarrow> py ''**'' @ inner @ py ''**'' @ BOLD_TAG_sub rest
         | None \<Rightarrow> c # BOLD_TAG_sub cs)
      else c # BOLD_TAG_sub cs)"
  by pat_completeness auto
termination
proof (relation "measure length")
  show "wf (measure length)" by simp
next
  fix c :: nat and cs x2 inner rest
  assume "find_sub (py ''</b>'') (drop 3 (c # cs)) = Some x2" and "(inner, rest) = x2"
  then have "length rest + length (py ''</b>'') \<le> length (drop 3 (c # cs))"
    using find_sub_shorter [of "py ''</b>''" "drop 3 (c # cs)" inner rest] by simp
  then show "(rest, c # cs) \<in> measure length" by (simp add: py_def)
qed simp_all

text \<open>
  \<open>BR_TAG = <br\s*/?>\<close> with IGNORECASE. \<open>BR_TAG_match s\<close> is the text behind a match
  that starts at the head of \<open>s\<close>. After \<open><br\<close> in either case the greedy \<open>\s*\<close> takes
  the whole run of whitespace and \<open>/?\<close> a slash when there is one; giving either back
  cannot help, the character that follows being whitespace or the slash and not \<open>>\<close>.
\<close>

definition BR_TAG_match :: "pystr \<Rightarrow> pystr option" where
  "BR_TAG_match s =
     (case s of
        a # b # c # rest \<Rightarrow>
          if a = ch CHR ''<'' \<and> (b = ch CHR ''b'' \<or> b = ch CHR ''B'')
               \<and> (c = ch CHR ''r'' \<or> c = ch CHR ''R'')
          then (let r1 = dropWhile isspace rest;
                    r2 = (case r1 of x # r \<Rightarrow> if x = ch CHR ''/'' then r else r1 | [] \<Rightarrow> r1)
                in (case r2 of y # r \<Rightarrow> if y = ch CHR ''>'' then Some r else None
                             | [] \<Rightarrow> None))
          else None
      | _ \<Rightarrow> None)"

lemma BR_TAG_match_shorter:
  assumes "BR_TAG_match s = Some r"
  shows "length r < length s"
proof -
  from assms obtain a b c rest where s: "s = a # b # c # rest"
    by (auto simp: BR_TAG_match_def split: list.splits)
  define r1 where "r1 = dropWhile isspace rest"
  define r2 where "r2 = (case r1 of x # r \<Rightarrow> if x = ch CHR ''/'' then r else r1 | [] \<Rightarrow> r1)"
  have l1: "length r1 \<le> length rest"
    unfolding r1_def by (rule length_dropWhile_le)
  have l2: "length r2 \<le> length r1"
    unfolding r2_def by (auto split: list.splits)
  from assms have "length r < length r2 + 1"
    unfolding s BR_TAG_match_def Let_def r2_def r1_def
    by (auto split: list.splits if_splits)
  with l1 l2 show ?thesis by (simp add: s)
qed

function BR_TAG_sub :: "pystr \<Rightarrow> pystr" where
  "BR_TAG_sub [] = []"
| "BR_TAG_sub (c # cs) =
     (case BR_TAG_match (c # cs) of
        Some rest \<Rightarrow> LINEBREAK_MARKER @ BR_TAG_sub rest
      | None \<Rightarrow> c # BR_TAG_sub cs)"
  by pat_completeness auto
termination
  by (relation "measure length") (auto dest: BR_TAG_match_shorter)

text \<open>
  \<open>HTML_TAG = <[^>]+>\<close>: a \<open><\<close>, at least one character other than \<open>>\<close> (line breaks
  and further \<open><\<close> included), and the first \<open>>\<close> behind them.
\<close>

definition HTML_TAG_match :: "pystr \<Rightarrow> pystr option" where
  "HTML_TAG_match s =
     (case s of
        c # cs \<Rightarrow>
          if c = ch CHR ''<'' \<and> takeWhile (\<lambda>x. x \<noteq> ch CHR ''>'') cs \<noteq> []
          then (case dropWhile (\<lambda>x. x \<noteq> ch CHR ''>'') cs of
                  g # rest \<Rightarrow> Some rest
                | [] \<Rightarrow> None)
          else None
      | [] \<Rightarrow> None)"

lemma HTML_TAG_match_shorter:
  assumes "HTML_TAG_match s = Some r"
  shows "length r < length s"
proof -
  from assms obtain c cs g where s: "s = c # cs"
    and d: "dropWhile (\<lambda>x. x \<noteq> ch CHR ''>'') cs = g # r"
    by (auto simp: HTML_TAG_match_def split: list.splits if_splits)
  have "length (dropWhile (\<lambda>x. x \<noteq> ch CHR ''>'') cs) \<le> length cs"
    by (rule length_dropWhile_le)
  with d show ?thesis by (simp add: s)
qed

function HTML_TAG_sub :: "pystr \<Rightarrow> pystr" where
  "HTML_TAG_sub [] = []"
| "HTML_TAG_sub (c # cs) =
     (case HTML_TAG_match (c # cs) of
        Some rest \<Rightarrow> HTML_TAG_sub rest
      | None \<Rightarrow> c # HTML_TAG_sub cs)"
  by pat_completeness auto
termination
  by (relation "measure length") (auto dest: HTML_TAG_match_shorter)

text \<open>
  The list-item rule of \<open>_process_li_content\<close>, on the markup \<open>str(li_element)\<close>.
\<close>

definition process_li_markup :: "pystr \<Rightarrow> pystr" where
  "process_li_markup html_str =
     (let html_str1 = BOLD_TAG_sub html_str;
          html_str2 = BR_TAG_sub html_str1;
          text = strip (HTML_TAG_sub html_str2);
          lines = map strip (filter (\<lambda>line. strip line \<noteq> []) (split LINEBREAK_MARKER text))
      in join MARKDOWN_LINE_BREAK lines)"

section \<open>The parsed document (BeautifulSoup)\<close>

text \<open>
  The tree that \<open>BeautifulSoup(html, 'html.parser')\<close> builds. An element is a \<open>Tag\<close>: its
  name, its attributes in the order \<open>str()\<close> writes them, its children. A text node is a
  \<open>Str\<close> with the class bs4 gave it. The parser itself is not part of the repository: the
  program receives the tree from it (\<open>html_parser\<close> below).
\<close>

datatype strclass =
    NavigableString | CData | Comment | Declaration | Doctype | ProcessingInstruction
  | Script | Stylesheet | TemplateString | RubyTextString | RubyParenthesisString

datatype node =
    Tag pystr "(pystr \<times> pystr) list" "node list"
  | Str strclass pystr

fun is_tag :: "node \<Rightarrow> bool" where
  "is_tag (Tag n a cs) = True"
| "is_tag (Str k s) = False"

fun tag_name :: "node \<Rightarrow> pystr" where
  "tag_name (Tag n a cs) = n"
| "tag_name (Str k s) = []"

fun contents :: "node \<Rightarrow> node list" where
  "contents (Tag n a cs) = cs"
| "contents (Str k s) = []"

fun attrs :: "node \<Rightarrow> (pystr \<times> pystr) list" where
  "attrs (Tag n a cs) = a"
| "attrs (Str k s) = []"

text \<open>\<open>element.descendants\<close>: every node below the element, in document order.\<close>

fun descendants :: "node \<Rightarrow> node list" where
  "descendants (Tag n a cs) = concat (map (\<lambda>c. c # descendants c) cs)"
| "descendants (Str k s) = []"

text \<open>
  \<open>find_all(names)\<close> yields the descendant tags whose name is one of \<open>names\<close>, in
  document order; with \<open>recursive=False\<close> the children only; with \<open>type=v\<close> only the
  tags whose attribute \<open>type\<close> is exactly \<open>v\<close>.
\<close>

definition named :: "pystr list \<Rightarrow> node \<Rightarrow> bool" where
  "named names e \<longleftrightarrow> is_tag e \<and> tag_name e \<in> set names"

definition find_all :: "node \<Rightarrow> pystr list \<Rightarrow> node list" where
  "find_all e names = filter (named names) (descendants e)"

definition find_all_children :: "node \<Rightarrow> pystr list \<Rightarrow> node list" where
  "find_all_children e names = filter (named names) (contents e)"

definition find_all_typed :: "node \<Rightarrow> pystr list \<Rightarrow> pystr \<Rightarrow> node list" where
  "find_all_typed e names v =
     filter (\<lambda>d. map_of (attrs d) (py ''type'') = Some v) (find_all e names)"

text \<open>
  \<open>tag.string\<close>: the only child when it is a string, the \<open>string\<close> of the only child
  when it is a tag, \<open>None\<close> when the tag has no child or several.
\<close>

fun tag_string :: "node \<Rightarrow> pystr option" where
  "tag_string (Tag n a [c]) = tag_string c"
| "tag_string (Tag n a cs) = None"
| "tag_string (Str k s) = Some s"

text \<open>
  \<open>get_text(separator, strip)\<close> joins the descendant strings of the classes the tag is
  interested in: the string class of its own container kind for \<open>script\<close>, \<open>style\<close>,
  \<open>template\<close>, \<open>rt\<close> and \<open>rp\<close>, plain text and CDATA for every other tag and the
  document. With \<open>strip=True\<close> each string is stripped and dropped when empty.
\<close>

definition interesting_string_types :: "pystr \<Rightarrow> strclass \<Rightarrow> bool" where
  "interesting_string_types name k =
     (if name = py ''script'' then k = Script
      else if name = py ''style'' then k = Stylesheet
      else if name = py ''template'' then k = TemplateString
      else if name = py ''rt'' then k = RubyTextString
      else if name = py ''rp'' then k = RubyParenthesisString
      else k = NavigableString \<or> k = CData)"

fun string_of :: "(strclass \<Rightarrow> bool) \<Rightarrow> node \<Rightarrow> pystr list" where
  "string_of types (Str k s) = (if types k then [s] else [])"
| "string_of types (Tag n a cs) = []"

definition all_strings :: "node \<Rightarrow> bool \<Rightarrow> pystr list" where
  "all_strings e strp =
     (let found = concat (map (string_of (interesting_string_types (tag_name e))) (descendants e))
      in if strp then filter (\<lambda>s. s \<noteq> []) (map strip found) else found)"

definition get_text :: "node \<Rightarrow> pystr \<Rightarrow> bool \<Rightarrow> pystr" where
  "get_text e separator strp = join separator (all_strings e strp)"

text \<open>
  \<open>str(tag)\<close>: bs4's \<open>decode\<close> with the \<open>minimal\<close> formatter. Text and attribute values
  have \<open>&\<close>, \<open><\<close> and \<open>>\<close> replaced by entities, except text directly inside \<open>script\<close> or
  \<open>style\<close>; comments, CDATA, declarations and the doctype are written between their
  delimiters as they are; a void element without children is written \<open><br/>\<close>.
\<close>

definition substitute_xml :: "pystr \<Rightarrow> pystr" where
  "substitute_xml s =
     concat (map (\<lambda>c. if c = ch CHR ''&'' then py ''&amp;''
                        else if c = ch CHR ''<'' then py ''&lt;''
                        else if c = ch CHR ''>'' then py ''&gt;''
                        else [c]) s)"

definition quoted_attribute_value :: "pystr \<Rightarrow> pystr" where
  "quoted_attribute_value v =
     (if ch CHR 0x22 \<in> set v then
        (if ch CHR 0x27 \<in> set v
         then py [CHR 0x22]
              @ concat (map (\<lambda>c. if c = ch CHR 0x22 then py ''&quot;'' else [c]) v)
              @ py [CHR 0x22]
         else py [CHR 0x27] @ v @ py [CHR 0x27])
      else py [CHR 0x22] @ v @ py [CHR 0x22])"

definition attribute_string :: "(pystr \<times> pystr) list \<Rightarrow> pystr" where
  "attribute_string a =
     concat (map (\<lambda>(k, v). py '' '' @ k @ py ''='' @ quoted_attribute_value (substitute_xml v)) a)"

definition empty_element_tags :: "pystr list" where
  "empty_element_tags = map py
     [''area'', ''base'', ''br'', ''col'', ''embed'', ''hr'', ''img'', ''input'', ''keygen'',
      ''link'', ''menuitem'', ''meta'', ''param'', ''source'', ''track'', ''wbr'',
      ''basefont'', ''bgsound'', ''command'', ''frame'', ''image'', ''isindex'', ''nextid'',
      ''spacer'']"

definition output_ready :: "pystr \<Rightarrow> strclass \<Rightarrow> pystr \<Rightarrow> pystr" where
  "output_ready parent k s =
     (case k of
        CData \<Rightarrow> py ''<![CDATA['' @ s @ py '']]>''
      | Comment \<Rightarrow> py ''<!--'' @ s @ py ''-->''
      | Declaration \<Rightarrow> py ''<?'' @ s @ py ''?>''
      | Doctype \<Rightarrow> py ''<!DOCTYPE '' @ s @ py ''>\<newline>''
      | ProcessingInstruction \<Rightarrow> py ''<?'' @ s @ py ''>''
      | _ \<Rightarrow> if parent = py ''script'' \<or> parent = py ''style'' then s else substitute_xml s)"

fun decode :: "pystr \<Rightarrow> node \<Rightarrow> pystr" where
  "decode parent (Str k s) = output_ready parent k s"
| "decode parent (Tag n a cs) =
     (if cs = [] \<and> n \<in> set empty_element_tags
      then py ''<'' @ n @ attribute_string a @ py ''/>''
      else py ''<'' @ n @ attribute_string a @ py ''>''
           @ concat (map (decode n) cs)
           @ py ''</'' @ n @ py ''>'')"

definition str_tag :: "node \<Rightarrow> pystr" where
  "str_tag e = decode [] e"

section \<open>JSON values, exceptions and the collaborators\<close>

text \<open>
  What \<open>json.loads\<close> returns. A JSON number is a Python \<open>int\<close> or a \<open>float\<close>; a float is
  a dyadic number \<open>m * 2 ^ e\<close>, the negative zero, an infinity or NaN. An object is a
  \<open>dict\<close> with string keys, read through \<open>map_of\<close>.
\<close>

datatype pyfloat = Dyadic int int | NegZero | PosInf | NegInf | NaN

datatype json =
    JNull
  | JBool bool
  | JInt int
  | JFloat pyfloat
  | JStr pystr
  | JList "json list"
  | JDict "(pystr \<times> json) list"

text \<open>Python's truth value of a JSON value (\<open>bool(v)\<close>).\<close>

fun truthy :: "json \<Rightarrow> bool" where
  "truthy JNull = False"
| "truthy (JBool b) = b"
| "truthy (JInt n) = (n \<noteq> 0)"
| "truthy (JFloat f) = (case f of Dyadic m e \<Rightarrow> m \<noteq> 0 | NegZero \<Rightarrow> False | _ \<Rightarrow> True)"
| "truthy (JStr s) = (s \<noteq> [])"
| "truthy (JList xs) = (xs \<noteq> [])"
| "truthy (JDict d) = (d \<noteq> [])"

text \<open>
  The instances of \<open>Exception\<close> the program tells apart: the three classes that
  \<open>extract_json_data\<close> catches, \<open>AttributeError\<close>, and any other subclass of
  \<open>Exception\<close> under its name (an error of the HTTP client, of the parser, a
  \<open>RecursionError\<close>).
\<close>

datatype exn = JSONDecodeError | KeyError | TypeError | AttributeError | OtherException string

text \<open>
  What can leave a call: an instance of \<open>Exception\<close>, or a signal that derives from
  \<open>BaseException\<close> only, under its name (\<open>asyncio.CancelledError\<close>, \<open>KeyboardInterrupt\<close>,
  \<open>SystemExit\<close>). A handler \<open>except Exception\<close> catches the first kind and lets the
  second pass. \<open>CancelledError\<close> is raised at an \<open>await\<close>, and the fetch is the only step
  of \<open>get_guidelines\<close> that awaits, so the fetch is where the model lets a signal arise;
  the parser, \<open>json.loads\<close> and the program's own operations raise instances of
  \<open>Exception\<close>. An interrupt delivered in the middle of the synchronous steps is not
  modelled.
\<close>

datatype raised = Exception exn | Signal string

text \<open>
  What the program calls and does not define:
  \<^item> \<open>fetch_from_url\<close>: the outcome of \<open>await self._fetch_from_url()\<close>, the text of
    the response, the exception of the HTTP client (\<open>raise_for_status\<close> included), or a
    signal raised at the await;
  \<^item> \<open>html_parser\<close>: \<open>BeautifulSoup(html, 'html.parser')\<close>, the children of the document
    it builds, or the exception it raises;
  \<^item> \<open>json_loads\<close>: \<open>json.loads\<close>;
  \<^item> \<open>py_str\<close>: \<open>str(v)\<close> of a JSON value that is not a string, as an f-string
    formats it;
  \<^item> \<open>py_eq\<close>: \<open>a == b\<close> on JSON values that are not both strings.
\<close>

record env =
  fetch_from_url :: "raised + pystr"
  html_parser :: "pystr \<Rightarrow> exn + node list"
  json_loads :: "pystr \<Rightarrow> exn + json"
  py_str :: "json \<Rightarrow> pystr"
  py_eq :: "json \<Rightarrow> json \<Rightarrow> bool"

text \<open>The document object: a tag named \<open>[document]\<close> over the parsed children.\<close>

definition BeautifulSoup :: "node list \<Rightarrow> node" where
  "BeautifulSoup cs = Tag (py ''[document]'') [] cs"

text \<open>\<open>f"{v}"\<close> and \<open>a != b\<close> on JSON values.\<close>

definition format_value :: "env \<Rightarrow> json \<Rightarrow> pystr" where
  "format_value rt v = (case v of JStr s \<Rightarrow> s | _ \<Rightarrow> py_str rt v)"

definition not_equal :: "env \<Rightarrow> json \<Rightarrow> json \<Rightarrow> bool" where
  "not_equal rt a b =
     (case a of
        JStr s \<Rightarrow> (case b of JStr t \<Rightarrow> s \<noteq> t | _ \<Rightarrow> \<not> py_eq rt a b)
      | _ \<Rightarrow> \<not> py_eq rt a b)"

section \<open>HTMLToMarkdownConverter\<close>

definition process_li_content :: "node \<Rightarrow> pystr" where
  "process_li_content li_element = process_li_markup (str_tag li_element)"

text \<open>
  \<open>_convert_list\<close>: the loop over \<open>enumerate(find_all('li', recursive=False))\<close>, with the
  index \<open>i\<close> of the enumeration as an argument.
\<close>

fun convert_list_lines :: "(nat \<Rightarrow> pystr \<Rightarrow> pystr) \<Rightarrow> nat \<Rightarrow> node list \<Rightarrow> pystr list" where
  "convert_list_lines formatter i [] = []"
| "convert_list_lines formatter i (li # lis) =
     (let li_text = process_li_content li
      in if li_text \<noteq> [] then formatter i li_text # convert_list_lines formatter (i + 1) lis
         else convert_list_lines formatter (i + 1) lis)"

definition convert_list :: "node \<Rightarrow> (nat \<Rightarrow> pystr \<Rightarrow> pystr) \<Rightarrow> pystr" where
  "convert_list list_element formatter =
     join (py ''\<newline>'')
       (convert_list_lines formatter 0 (find_all_children list_element [py ''li'']))"

definition convert_unordered_list :: "node \<Rightarrow> pystr" where
  "convert_unordered_list ul_element = convert_list ul_element (\<lambda>i text. py ''- '' @ text)"

definition convert_ordered_list :: "node \<Rightarrow> pystr" where
  "convert_ordered_list ol_element =
     convert_list ol_element (\<lambda>i text. str_nat (i + 1) @ py ''. '' @ text)"

definition table_line :: "pystr list \<Rightarrow> pystr" where
  "table_line cells = py ''| '' @ join (py '' | '') cells @ py '' |''"

definition row_cells :: "node \<Rightarrow> pystr list" where
  "row_cells row = map (\<lambda>c. get_text c [] True) (find_all row [py ''th'', py ''td''])"

definition convert_table :: "node \<Rightarrow> pystr" where
  "convert_table table_element =
     (case find_all table_element [py ''tr''] of
        [] \<Rightarrow> []
      | header_row # data_rows \<Rightarrow>
          (let headers = row_cells header_row;
               header_lines =
                 (if headers \<noteq> []
                  then [table_line headers,
                        table_line (replicate (length headers) (py ''---''))]
                  else []);
               data_lines =
                 map table_line (filter (\<lambda>cells. cells \<noteq> []) (map row_cells data_rows))
           in join (py ''\<newline>'') (header_lines @ data_lines)))"

definition convert_element :: "node \<Rightarrow> pystr" where
  "convert_element element =
     (if tag_name element = py ''ul'' then convert_unordered_list element
      else if tag_name element = py ''ol'' then convert_ordered_list element
      else if tag_name element = py ''table'' then convert_table element
      else if tag_name element = py ''p'' then get_text element [] True
      else get_text element [] True)"

text \<open>
  The loop of \<open>convert_html_to_markdown\<close> over \<open>soup.children\<close>. Every tag the parser
  builds has a name, so the first branch is the branch of the tags: the tag is converted.
  Any string (a comment or a doctype too, all have \<open>strip\<close>) is stripped. What is empty
  is left out.
\<close>

fun convert_children :: "node list \<Rightarrow> pystr list" where
  "convert_children [] = []"
| "convert_children (Tag n a cs # rest) =
     (let converted = convert_element (Tag n a cs)
      in if converted \<noteq> [] then converted # convert_children rest
         else convert_children rest)"
| "convert_children (Str k s # rest) =
     (let text = strip s
      in if text \<noteq> [] then text # convert_children rest else convert_children rest)"

definition convert_html_to_markdown :: "env \<Rightarrow> pystr \<Rightarrow> exn + pystr" where
  "convert_html_to_markdown rt html_content =
     (if html_content = [] \<or> strip html_content = [] then Inr []
      else (case html_parser rt html_content of
              Inl e \<Rightarrow> Inl e
            | Inr children \<Rightarrow> Inr (join (py ''\<newline>'') (convert_children children))))"

section \<open>JSONDataProcessor\<close>

text \<open>
  Three operations of Python on a JSON value, with the exception each raises on a value
  of the wrong type: \<open>key in v\<close>, \<open>v[key]\<close> and \<open>v.get(key, default)\<close>.
\<close>

fun py_in :: "pystr \<Rightarrow> json \<Rightarrow> exn + bool" where
  "py_in key (JDict d) = Inr (map_of d key \<noteq> None)"
| "py_in key (JStr s) = Inr (find_sub key s \<noteq> None)"
| "py_in key (JList xs) = Inr (JStr key \<in> set xs)"
| "py_in key v = Inl TypeError"

fun subscript :: "json \<Rightarrow> pystr \<Rightarrow> exn + json" where
  "subscript (JDict d) key = (case map_of d key of Some v \<Rightarrow> Inr v | None \<Rightarrow> Inl KeyError)"
| "subscript v key = Inl TypeError"

fun dict_get :: "json \<Rightarrow> pystr \<Rightarrow> json \<Rightarrow> exn + json" where
  "dict_get (JDict d) key dflt = Inr (case map_of d key of Some v \<Rightarrow> v | None \<Rightarrow> dflt)"
| "dict_get v key dflt = Inl AttributeError"

definition extract_guideline_items_from_json :: "json \<Rightarrow> json list option" where
  "extract_guideline_items_from_json data =
     (case data of
        JDict d \<Rightarrow>
          (case map_of d (py ''data'') of
             Some (JDict data_section) \<Rightarrow>
               (case map_of data_section (py ''items'') of
                  Some (JList items) \<Rightarrow>
                    if length items < MIN_ITEMS_COUNT then None
                    else (case items of
                            JDict first # others \<Rightarrow>
                              if map_of first (py ''fields'') \<noteq> None then Some items else None
                          | _ \<Rightarrow> None)
                | _ \<Rightarrow> None)
           | _ \<Rightarrow> None)
      | _ \<Rightarrow> None)"

text \<open>
  The loop of \<open>extract_json_data\<close> over the script tags. \<open>caught e\<close> is the clause
  \<open>except (json.JSONDecodeError, KeyError, TypeError)\<close>; any other exception leaves the
  function.
\<close>

definition caught :: "exn \<Rightarrow> bool" where
  "caught e \<longleftrightarrow> e = JSONDecodeError \<or> e = KeyError \<or> e = TypeError"

fun scan_scripts :: "env \<Rightarrow> node list \<Rightarrow> exn + json list option" where
  "scan_scripts rt [] = Inr None"
| "scan_scripts rt (script # rest) =
     (case tag_string script of
        None \<Rightarrow> scan_scripts rt rest
      | Some s \<Rightarrow>
          if s = [] then scan_scripts rt rest
          else (case json_loads rt s of
                  Inl e \<Rightarrow> if caught e then scan_scripts rt rest else Inl e
                | Inr data \<Rightarrow>
                    (case extract_guideline_items_from_json data of
                       Some items \<Rightarrow>
                         if items \<noteq> [] then Inr (Some items) else scan_scripts rt rest
                     | None \<Rightarrow> scan_scripts rt rest)))"

definition extract_json_data :: "env \<Rightarrow> node \<Rightarrow> exn + json list option" where
  "extract_json_data rt content =
     scan_scripts rt (find_all_typed content [py ''script''] (py ''application/json''))"

definition is_valid_item :: "json \<Rightarrow> exn + bool" where
  "is_valid_item item =
     (case py_in (py ''fields'') item of
        Inl e \<Rightarrow> Inl e
      | Inr present \<Rightarrow>
          if \<not> present then Inr False
          else (case subscript item (py ''fields'') of
                  Inl e \<Rightarrow> Inl e
                | Inr item_fields \<Rightarrow>
                    (case dict_get item_fields (py ''itemHeading'') (JStr []) of
                       Inl e \<Rightarrow> Inl e
                     | Inr heading \<Rightarrow> Inr (truthy heading \<and> heading \<noteq> JStr (py ''NA'')))))"

definition extract_category :: "json \<Rightarrow> exn + json option" where
  "extract_category item =
     (case dict_get item (py ''metadata'') (JDict []) of
        Inl e \<Rightarrow> Inl e
      | Inr metadata \<Rightarrow>
          (case metadata of
             JDict m \<Rightarrow>
               (case (case map_of m (py ''tags'') of Some t \<Rightarrow> t | None \<Rightarrow> JList []) of
                  JList (first_tag # others) \<Rightarrow>
                    (case first_tag of
                       JDict t \<Rightarrow>
                         (let name = (case map_of t (py ''name'') of
                                        Some n \<Rightarrow> n | None \<Rightarrow> JStr [])
                          in Inr (if truthy name then Some name else None))
                     | _ \<Rightarrow> Inr None)
                | _ \<Rightarrow> Inr None)
           | _ \<Rightarrow> Inr None))"

definition convert_item_to_markdown_sections :: "env \<Rightarrow> json \<Rightarrow> exn + pystr list" where
  "convert_item_to_markdown_sections rt item =
     (case subscript item (py ''fields'') of
        Inl e \<Rightarrow> Inl e
      | Inr item_fields \<Rightarrow>
          (case dict_get item_fields (py ''itemHeading'') (JStr []) of
             Inl e \<Rightarrow> Inl e
           | Inr heading \<Rightarrow>
               (case dict_get item_fields (py ''itemLongLoc'') (JStr []) of
                  Inl e \<Rightarrow> Inl e
                | Inr content \<Rightarrow>
                    (let sections = [py ''### '' @ format_value rt heading]
                     in if truthy content then
                          (case content of
                             JStr html \<Rightarrow>
                               (case convert_html_to_markdown rt html of
                                  Inl e \<Rightarrow> Inl e
                                | Inr markdown_content \<Rightarrow>
                                    (let stripped_content = strip markdown_content
                                     in if stripped_content \<noteq> []
                                        then Inr (sections @ [stripped_content])
                                        else Inr sections))
                           | _ \<Rightarrow> Inl AttributeError)
                        else Inr sections))))"

text \<open>
  The loop of \<open>process_json_data\<close>: the state is the list \<open>sections\<close> and
  \<open>current_category\<close> (\<open>None\<close> at the start).
\<close>

fun process_items :: "env \<Rightarrow> json list \<Rightarrow> pystr list \<Rightarrow> json option \<Rightarrow> exn + pystr list" where
  "process_items rt [] sections current_category = Inr sections"
| "process_items rt (item # items) sections current_category =
     (case is_valid_item item of
        Inl e \<Rightarrow> Inl e
      | Inr valid \<Rightarrow>
          if \<not> valid then process_items rt items sections current_category
          else (case extract_category item of
                  Inl e \<Rightarrow> Inl e
                | Inr category \<Rightarrow>
                    (let changed =
                           (case category of
                              None \<Rightarrow> False
                            | Some c \<Rightarrow>
                                (case current_category of
                                   None \<Rightarrow> True
                                 | Some cur \<Rightarrow> not_equal rt c cur));
                         current_category' = (if changed then category else current_category);
                         sections' =
                           (if changed
                            then sections @ [py ''## '' @ format_value rt (the category)]
                            else sections)
                     in (case convert_item_to_markdown_sections rt item of
                           Inl e \<Rightarrow> Inl e
                         | Inr item_sections \<Rightarrow>
                             process_items rt items (sections' @ item_sections)
                               current_category'))))"

definition process_json_data :: "env \<Rightarrow> json list \<Rightarrow> exn + pystr" where
  "process_json_data rt items =
     (case process_items rt items [] None of
        Inl e \<Rightarrow> Inl e
      | Inr sections \<Rightarrow> Inr (join SECTION_SEPARATOR sections))"

section \<open>GuidelinesFetcher\<close>

definition extract_all_text :: "node \<Rightarrow> pystr" where
  "extract_all_text content =
     (let text = get_text content (py ''\<newline>'') True;
          lines = map strip (filter (\<lambda>line. strip line \<noteq> []) (split (py ''\<newline>'') text))
      in join (py ''\<newline>'') lines)"

definition parse_content :: "env \<Rightarrow> pystr \<Rightarrow> exn + pystr" where
  "parse_content rt html =
     (if html = [] \<or> strip html = [] then Inr []
      else (case html_parser rt html of
              Inl e \<Rightarrow> Inl e
            | Inr children \<Rightarrow>
                (let soup = BeautifulSoup children
                 in (case extract_json_data rt soup of
                       Inl e \<Rightarrow> Inl e
                     | Inr json_data \<Rightarrow>
                         (case json_data of
                            Some items \<Rightarrow>
                              if items \<noteq> [] then process_json_data rt items
                              else Inr (extract_all_text soup)
                          | None \<Rightarrow> Inr (extract_all_text soup))))))"

text \<open>
  \<open>get_guidelines\<close>: the body of the \<open>try\<close>, and the handler \<open>except Exception\<close> around
  it, which catches the instances of \<open>Exception\<close> and nothing else. The result is \<open>Inr\<close> a
  string when the method returns and \<open>Inl\<close> what was raised when something leaves it.
\<close>

definition get_guidelines_try :: "env \<Rightarrow> raised + pystr" where
  "get_guidelines_try rt =
     (case fetch_from_url rt of
        Inl r \<Rightarrow> Inl r
      | Inr html_content \<Rightarrow>
          (case parse_content rt html_content of
             Inl e \<Rightarrow> Inl (Exception e)
           | Inr result \<Rightarrow>
               if result = [] \<or> strip result = [] then Inr ERROR_MESSAGE else Inr result))"

definition get_guidelines :: "env \<Rightarrow> raised + pystr" where
  "get_guidelines rt =
     (case get_guidelines_try rt of
        Inl r \<Rightarrow>
          (case r of
             Exception e \<Rightarrow> Inr ERROR_MESSAGE
           | Signal name \<Rightarrow> Inl (Signal name))
      | Inr result \<Rightarrow> Inr result)"

section \<open>Example data\<close>

text \<open>
  The concrete inputs of the examples: guideline items as \<open>json.loads\<close> returns them,
  collaborators that answer with fixed values, and the trees the parser builds for the
  fragments of the specification's examples (\<open><li>Hello<br>World</li>\<close>,
  \<open><li><b>X</b> rest</li>\<close>, the lists and the tables).
\<close>

definition guide_item :: "string \<Rightarrow> string \<Rightarrow> string \<Rightarrow> json" where
  "guide_item category heading body =
     JDict [(py ''fields'', JDict [(py ''itemHeading'', JStr (py heading)),
                                   (py ''itemLongLoc'', JStr (py body))]),
            (py ''metadata'', JDict [(py ''tags'', JList [JDict [(py ''name'', JStr (py category))]])])]"

definition paragraph_parser :: "pystr \<Rightarrow> exn + node list" where
  "paragraph_parser html = Inr [Tag (py ''p'') [] [Str NavigableString html]]"

definition example_rt :: env where
  "example_rt =
     \<lparr>fetch_from_url = Inr (py ''<html>''),
      html_parser = paragraph_parser,
      json_loads = (\<lambda>s. Inl JSONDecodeError),
      py_str = (\<lambda>v. []),
      py_eq = (\<lambda>a b. a = b)\<rparr>"

definition hello_rt :: env where
  "hello_rt =
     \<lparr>fetch_from_url = Inr (py ''<p>Hello</p>''),
      html_parser = (\<lambda>html. if html = py ''<p>Hello</p>''
                            then Inr [Tag (py ''p'') [] [Str NavigableString (py ''Hello'')]]
                            else Inl (OtherException ''ParserRejectedMarkup'')),
      json_loads = (\<lambda>s. Inl JSONDecodeError),
      py_str = (\<lambda>v. []),
      py_eq = (\<lambda>a b. a = b)\<rparr>"

definition failing_fetch_rt :: env where
  "failing_fetch_rt =
     hello_rt\<lparr>fetch_from_url := Inl (Exception (OtherException ''ConnectTimeout''))\<rparr>"

definition failing_parser_rt :: env where
  "failing_parser_rt = hello_rt\<lparr>fetch_from_url := Inr (py ''<![x]>'')\<rparr>"

definition cancelled_rt :: env where
  "cancelled_rt = hello_rt\<lparr>fetch_from_url := Inl (Signal ''CancelledError'')\<rparr>"

definition payload :: "json list \<Rightarrow> json" where
  "payload items = JDict [(py ''data'', JDict [(py ''items'', JList items)])]"

definition script_page :: "node list" where
  "script_page =
     [Tag (py ''script'') [(py ''type'', py ''application/json'')] [Str Script (py ''{}'')],
      Tag (py ''p'') [] [Str NavigableString (py ''Hello'')]]"

definition page_rt :: "json list \<Rightarrow> env" where
  "page_rt items =
     \<lparr>fetch_from_url = Inr (py ''<html>''),
      html_parser = (\<lambda>html. if html = py ''<html>'' then Inr script_page
                            else paragraph_parser html),
      json_loads = (\<lambda>s. Inr (payload items)),
      py_str = (\<lambda>v. []),
      py_eq = (\<lambda>a b. a = b)\<rparr>"

definition malformed_item :: json where
  "malformed_item = JDict [(py ''fields'', JList [])]"

definition malformed_items :: "json list" where
  "malformed_items =
     guide_item ''Accounts'' ''Billing'' ''Pay'' # malformed_item
       # replicate 8 (guide_item ''Accounts'' ''Refunds'' ''Ask'')"



definition li_text :: "string \<Rightarrow> node" where
  "li_text s = Tag (py ''li'') [] [Str NavigableString (py s)]"





definition cell :: "string \<Rightarrow> string \<Rightarrow> node" where
  "cell name s = Tag (py name) [] [Str NavigableString (py s)]"

definition table_H_a :: node where
  "table_H_a =
     Tag (py ''table'') []
       [Tag (py ''tr'') [] [cell ''th'' ''H1'', cell ''th'' ''H2''],
        Tag (py ''tr'') [] [cell ''td'' ''a'', cell ''td'' ''b'']]"

definition table_empty_header :: node where
  "table_empty_header =
     Tag (py ''table'') []
       [Tag (py ''tr'') [] [],
        Tag (py ''tr'') [] [cell ''td'' ''a'']]"

definition table_no_rows :: node where
  "table_no_rows = Tag (py ''table'') [] []"

definition nine_items :: "json list" where
  "nine_items = replicate 9 (guide_item ''Accounts'' ''Billing'' ''Pay'')"

definition all_NA_items :: "json list" where
  "all_NA_items = replicate 10 (guide_item ''Accounts'' ''NA'' ''Pay'')"

definition one_valid_items :: "json list" where
  "one_valid_items =
     guide_item ''Accounts'' ''Billing'' ''Pay'' # replicate 9 (guide_item ''Accounts'' ''NA'' ''Pay'')"

definition blank_rt :: env where
  "blank_rt = example_rt\<lparr>fetch_from_url := Inr (py ''  '')\<rparr>"











definition null_fields_item :: json where
  "null_fields_item = JDict [(py ''fields'', JNull)]"

definition text_rt :: env where
  "text_rt =
     hello_rt
       \<lparr>html_parser := (\<lambda>html. if html = py ''Pay'' \<or> html = py ''Ask''
                              then Inr [Str NavigableString html]
                              else Inl (OtherException ''ParserRejectedMarkup''))\<rparr>"

section \<open>The properties of the specification, as predicates\<close>

text \<open>
  An item whose \<open>fields\<close> is absent or a mapping and whose \<open>itemHeading\<close> is missing,
  empty, or the literal \<open>NA\<close>.
\<close>

definition heading_missing_empty_or_NA :: "json \<Rightarrow> bool" where
  "heading_missing_empty_or_NA item =
     (case item of
        JDict d \<Rightarrow>
          (case map_of d (py ''fields'') of
             None \<Rightarrow> True
           | Some (JDict f) \<Rightarrow>
               (case map_of f (py ''itemHeading'') of
                  None \<Rightarrow> True
                | Some h \<Rightarrow> \<not> truthy h \<or> h = JStr (py ''NA''))
           | Some other \<Rightarrow> False)
      | _ \<Rightarrow> False)"

text \<open>
  An item whose \<open>fields\<close> value is present and is not a mapping.
\<close>

definition fields_not_a_mapping :: "json \<Rightarrow> bool" where
  "fields_not_a_mapping item =
     (case item of
        JDict d \<Rightarrow>
          (case map_of d (py ''fields'') of
             None \<Rightarrow> False
           | Some (JDict f) \<Rightarrow> False
           | Some other \<Rightarrow> True)
      | _ \<Rightarrow> False)"


section \<open>Evaluation and auxiliary lemmas\<close>

lemmas str_eval =
  py_def ch_def strip_def lstrip_def rstrip_def isspace_def

lemmas dom_eval =
  find_all_def find_all_children_def find_all_typed_def named_def get_text_def all_strings_def
  interesting_string_types_def BeautifulSoup_def str_tag_def output_ready_def
  substitute_xml_def attribute_string_def quoted_attribute_value_def empty_element_tags_def

lemmas fetcher_eval =
  get_guidelines_def get_guidelines_try_def parse_content_def extract_all_text_def
  extract_json_data_def split.simps Let_def

lemmas json_eval =
  guide_item_def is_valid_item_def extract_category_def convert_item_to_markdown_sections_def
  convert_html_to_markdown_def convert_element_def format_value_def not_equal_def
  process_json_data_def extract_guideline_items_from_json_def MIN_ITEMS_COUNT_def caught_def
  SECTION_SEPARATOR_def payload_def

lemma replicate_numeral: "replicate (numeral k) x = x # replicate (pred_numeral k) x"
  by (simp add: numeral_eq_Suc)

lemma in_set_dropWhile: "x \<in> set xs \<Longrightarrow> \<not> P x \<Longrightarrow> x \<in> set (dropWhile P xs)"
  by (induction xs) auto

lemma in_set_strip: "c \<in> set s \<Longrightarrow> \<not> isspace c \<Longrightarrow> c \<in> set (strip s)"
  by (simp add: strip_def lstrip_def rstrip_def in_set_dropWhile)

lemma strip_eq_Nil_iff: "strip s = [] \<longleftrightarrow> (\<forall>c\<in>set s. isspace c)"
proof
  assume "strip s = []"
  then show "\<forall>c\<in>set s. isspace c"
    using in_set_strip [of _ s] by fastforce
next
  assume a: "\<forall>c\<in>set s. isspace c"
  then have d: "dropWhile isspace s = []" by simp
  show "strip s = []"
    unfolding strip_def lstrip_def rstrip_def d by simp
qed

lemma strip_nonempty: "c \<in> set s \<Longrightarrow> \<not> isspace c \<Longrightarrow> strip s \<noteq> []"
  by (auto simp: strip_eq_Nil_iff)

lemma strip_strip_nonempty: "strip s \<noteq> [] \<Longrightarrow> strip (strip s) \<noteq> []"
  by (metis in_set_strip strip_eq_Nil_iff)

lemma set_join_first: "x \<in> set xs \<Longrightarrow> c \<in> set x \<Longrightarrow> c \<in> set (join sep xs)"
  by (induction sep xs rule: join.induct) auto

lemma hash_not_space: "\<not> isspace (ch CHR ''#'')"
  by (simp add: isspace_def ch_def)

lemma heading_not_blank: "strip (py ''## '' @ s) \<noteq> []" "strip (py ''### '' @ s) \<noteq> []"
  by (rule strip_nonempty [of "ch CHR ''#''"]; simp add: py_def hash_not_space)+

lemma convert_item_sections_not_blank:
  assumes "convert_item_to_markdown_sections rt item = Inr secs"
  shows "\<forall>s\<in>set secs. strip s \<noteq> []"
  using assms
  by (auto simp: convert_item_to_markdown_sections_def Let_def heading_not_blank
        strip_strip_nonempty split: sum.splits json.splits if_splits)

lemma process_items_not_blank:
  "process_items rt items secs cur = Inr out \<Longrightarrow> \<forall>s\<in>set secs. strip s \<noteq> [] \<Longrightarrow>
   \<forall>s\<in>set out. strip s \<noteq> []"
proof (induction items arbitrary: secs cur)
  case Nil
  then show ?case by simp
next
  case (Cons item items)
  show ?case
  proof (cases "is_valid_item item")
    case (Inl e)
    with Cons.prems show ?thesis by simp
  next
    case (Inr valid)
    show ?thesis
    proof (cases valid)
      case False
      with Inr Cons show ?thesis by simp
    next
      case True
      from Cons.prems(1) Inr True obtain category item_sections secs' cur'
        where cat: "extract_category item = Inr category"
          and its: "convert_item_to_markdown_sections rt item = Inr item_sections"
          and rec: "process_items rt items (secs' @ item_sections) cur' = Inr out"
          and secs': "secs' = secs \<or> (\<exists>h. secs' = secs @ [py ''## '' @ h])"
        by (auto simp: Let_def split: sum.splits if_splits)
      have "\<forall>s\<in>set (secs' @ item_sections). strip s \<noteq> []"
        using secs' Cons.prems(2) convert_item_sections_not_blank [OF its]
        by (auto simp: heading_not_blank)
      with Cons.IH rec show ?thesis by blast
    qed
  qed
qed

lemma strip_Nil: "strip [] = []"
  by (simp add: strip_def lstrip_def rstrip_def)

lemma invalid_item_not_valid:
  assumes "heading_missing_empty_or_NA item"
  shows "is_valid_item item = Inr False"
proof -
  from assms obtain d where d: "item = JDict d"
    by (auto simp: heading_missing_empty_or_NA_def split: json.splits)
  show ?thesis
  proof (cases "map_of d (py ''fields'')")
    case None
    then show ?thesis by (simp add: d is_valid_item_def)
  next
    case (Some f)
    with assms d obtain fd where "f = JDict fd"
      by (cases f) (auto simp: heading_missing_empty_or_NA_def)
    with assms d Some show ?thesis
      by (auto simp: heading_missing_empty_or_NA_def is_valid_item_def split: option.splits)
  qed
qed

lemma process_items_skip:
  "is_valid_item bad = Inr False \<Longrightarrow>
   process_items rt (xs @ bad # ys) secs cur = process_items rt (xs @ ys) secs cur"
proof (induction xs arbitrary: secs cur)
  case Nil
  then show ?case by simp
next
  case (Cons x xs)
  then show ?case
    by (simp add: Let_def split: sum.splits)
qed

lemma fields_not_a_mapping_raises:
  assumes "fields_not_a_mapping item"
  shows "is_valid_item item = Inl AttributeError"
proof -
  from assms obtain d f where d: "item = JDict d" and f: "map_of d (py ''fields'') = Some f"
    by (auto simp: fields_not_a_mapping_def split: json.splits option.splits)
  from assms d f show ?thesis
    by (cases f) (simp_all add: fields_not_a_mapping_def is_valid_item_def)
qed

lemma process_items_raises:
  "item \<in> set items \<Longrightarrow> is_valid_item item = Inl e \<Longrightarrow>
   \<exists>e'. process_items rt items secs cur = Inl e'"
proof (induction items arbitrary: secs cur)
  case Nil
  then show ?case by simp
next
  case (Cons x xs)
  show ?case
  proof (cases "x = item")
    case True
    with Cons.prems show ?thesis by simp
  next
    case False
    with Cons.prems have "item \<in> set xs" by simp
    from Cons.IH [OF this Cons.prems(2)] show ?thesis
      by (auto simp: Let_def split: sum.splits)
  qed
qed

lemma locate_malformed:
  "extract_json_data (page_rt malformed_items) (BeautifulSoup script_page) = Inr (Some malformed_items)"
  by (simp add: page_rt_def script_page_def malformed_items_def malformed_item_def
        extract_json_data_def json_eval dom_eval py_def ch_def replicate_numeral)





















lemmas table_eval =
  convert_table_def row_cells_def table_line_def cell_def

lemma table_H_a_value:
  "convert_table table_H_a = py ''| H1 | H2 |\<newline>| --- | --- |\<newline>| a | b |''"
  by (simp add: table_H_a_def table_eval dom_eval str_eval replicate_numeral)

lemma table_empty_header_value:
  "convert_table table_empty_header = py ''| a |''"
  by (simp add: table_empty_header_def table_eval dom_eval str_eval)



lemma scan_scripts_nonempty:
  "scan_scripts rt scripts = Inr (Some items) \<Longrightarrow> items \<noteq> []"
  by (induction scripts) (auto split: option.splits sum.splits if_splits)

lemma nine_items_absent:
  "extract_json_data (page_rt nine_items) (BeautifulSoup script_page) = Inr None"
  by (simp add: page_rt_def script_page_def nine_items_def
        extract_json_data_def json_eval dom_eval py_def ch_def replicate_numeral)

lemma assembled_not_blank:
  assumes "process_json_data rt items = Inr doc" and "doc \<noteq> []"
  shows "strip doc \<noteq> []"
proof -
  from assms(1) obtain sections where s: "process_items rt items [] None = Inr sections"
    and d: "doc = join SECTION_SEPARATOR sections"
    by (auto simp: process_json_data_def split: sum.splits)
  from assms(2) d obtain first others where f: "sections = first # others"
    by (cases sections) auto
  from process_items_not_blank [OF s] f have "strip first \<noteq> []" by simp
  then obtain c where "c \<in> set first" and "\<not> isspace c"
    by (auto simp: strip_eq_Nil_iff)
  with f d have "c \<in> set doc"
    using set_join_first [of first "first # others" c SECTION_SEPARATOR] by simp
  with \<open>\<not> isspace c\<close> show ?thesis
    using strip_nonempty [of c doc] by simp
qed

lemma parse_result_cases:
  assumes "fetch_from_url rt = Inr html" and "html_parser rt html = Inr children"
    and "strip html \<noteq> []"
  shows "(extract_json_data rt (BeautifulSoup children) = Inr (Some items)
          \<and> process_json_data rt items = Inr doc \<and> doc \<noteq> []
          \<longrightarrow> get_guidelines rt = Inr doc)
     \<and> (extract_json_data rt (BeautifulSoup children) = Inr (Some items)
          \<and> process_json_data rt items = Inr []
          \<longrightarrow> get_guidelines rt = Inr ERROR_MESSAGE)
     \<and> (extract_json_data rt (BeautifulSoup children) = Inr None
          \<longrightarrow> get_guidelines rt =
               Inr (if strip (extract_all_text (BeautifulSoup children)) = []
                    then ERROR_MESSAGE else extract_all_text (BeautifulSoup children)))
     \<and> extract_all_text (BeautifulSoup children) =
         join (py ''\<newline>'')
           (map strip (filter (\<lambda>line. strip line \<noteq> [])
              (split (py ''\<newline>'')
                 (get_text (BeautifulSoup children) (py ''\<newline>'') True))))"
proof (intro conjI impI)
  from assms(3) have ne: "html \<noteq> []" using strip_Nil by auto
  {
    assume a: "extract_json_data rt (BeautifulSoup children) = Inr (Some items)
          \<and> process_json_data rt items = Inr doc \<and> doc \<noteq> []"
    then have "items \<noteq> []"
      using scan_scripts_nonempty by (auto simp: extract_json_data_def)
    moreover from a have "strip doc \<noteq> []"
      using assembled_not_blank [of rt items doc] by blast
    ultimately show "get_guidelines rt = Inr doc"
      using a assms ne
      by (simp add: get_guidelines_def get_guidelines_try_def parse_content_def Let_def)
  }
  {
    assume a: "extract_json_data rt (BeautifulSoup children) = Inr (Some items)
          \<and> process_json_data rt items = Inr []"
    then have "items \<noteq> []"
      using scan_scripts_nonempty by (auto simp: extract_json_data_def)
    then show "get_guidelines rt = Inr ERROR_MESSAGE"
      using a assms ne
      by (simp add: get_guidelines_def get_guidelines_try_def parse_content_def Let_def)
  }
  {
    assume a: "extract_json_data rt (BeautifulSoup children) = Inr None"
    show "get_guidelines rt =
               Inr (if strip (extract_all_text (BeautifulSoup children)) = []
                    then ERROR_MESSAGE else extract_all_text (BeautifulSoup children))"
      using a assms ne strip_Nil
      by (auto simp: get_guidelines_def get_guidelines_try_def parse_content_def Let_def)
  }
  show "extract_all_text (BeautifulSoup children) =
         join (py ''\<newline>'')
           (map strip (filter (\<lambda>line. strip line \<noteq> [])
              (split (py ''\<newline>'')
                 (get_text (BeautifulSoup children) (py ''\<newline>'') True))))"
    by (simp add: extract_all_text_def Let_def)
qed














text \<open>
  An item whose \<open>fields\<close> is absent or a mapping, and whose heading is missing, empty (any
  false value) or the literal \<open>NA\<close>, leaves the state of the assembler's loop as it found
  it: the loop continues behind it as if the item were not there.
\<close>

lemma skipped_item_as_if_deleted:
  assumes "heading_missing_empty_or_NA bad"
  shows "process_items rt (bad # ys) sections current_category
           = process_items rt ys sections current_category
         \<and> process_items rt (xs @ bad # ys) sections current_category
           = process_items rt (xs @ ys) sections current_category
         \<and> process_json_data rt (xs @ bad # ys) = process_json_data rt (xs @ ys)"
  using process_items_skip [OF invalid_item_not_valid [OF assms]]
    process_items_skip [OF invalid_item_not_valid [OF assms], of rt "[]"]
  by (simp add: process_json_data_def)

lemma skipped_item_as_if_deleted_example:
  "heading_missing_empty_or_NA (guide_item ''Limits'' ''NA'' ''Quota'')
   \<and> process_json_data text_rt
        ([guide_item ''Accounts'' ''Billing'' ''Pay'']
          @ guide_item ''Limits'' ''NA'' ''Quota'' # [guide_item ''Accounts'' ''Refunds'' ''Ask''])
     = Inr (py ''## Accounts\<newline>\<newline>### Billing\<newline>\<newline>Pay\<newline>\<newline>### Refunds\<newline>\<newline>Ask'')"
proof -
  have h: "heading_missing_empty_or_NA (guide_item ''Limits'' ''NA'' ''Quota'')"
    by (simp add: heading_missing_empty_or_NA_def guide_item_def py_def ch_def)
  have "process_json_data text_rt
          ([guide_item ''Accounts'' ''Billing'' ''Pay''] @ [guide_item ''Accounts'' ''Refunds'' ''Ask''])
        = Inr (py ''## Accounts\<newline>\<newline>### Billing\<newline>\<newline>Pay\<newline>\<newline>### Refunds\<newline>\<newline>Ask'')"
    by (simp add: text_rt_def hello_rt_def json_eval dom_eval str_eval Let_def)
  with skipped_item_as_if_deleted [OF h, of text_rt "[guide_item ''Accounts'' ''Refunds'' ''Ask'']"
         "[]" None "[guide_item ''Accounts'' ''Billing'' ''Pay'']"] h
  show ?thesis by simp
qed

section \<open>The claims\<close>

text \<open>
  C1, as the specification states it: whatever the transport does, no exception ever
  leaves \<open>get_guidelines\<close>. The handler is \<open>except Exception\<close>: when the task is
  cancelled while the fetch awaits, \<open>asyncio.CancelledError\<close> (a \<open>BaseException\<close> that is
  not an \<open>Exception\<close>) is raised at the await, passes the handler and reaches the caller.
\<close>

theorem no_exception_ever_propagates_counterexample:
  "fetch_from_url cancelled_rt = Inl (Signal ''CancelledError'')
   \<and> get_guidelines cancelled_rt = Inl (Signal ''CancelledError'')
   \<and> get_guidelines cancelled_rt \<noteq> Inr ERROR_MESSAGE"
  by (simp add: cancelled_rt_def hello_rt_def get_guidelines_def get_guidelines_try_def)

text \<open>
  C1, amended. Whatever the transport, the parser and every other step do,
  \<open>get_guidelines\<close> either returns a string, the sentinel \<open>ERROR_MESSAGE\<close> or the non-blank
  text that \<open>_parse_content\<close> rendered, or lets pass a signal that is not an instance of
  \<open>Exception\<close> and that the fetch raised; nothing else leaves it. No instance of
  \<open>Exception\<close> propagates: when the fetch raises one, when the parser raises, or when any
  step of \<open>_parse_content\<close> raises, the result is exactly the sentinel.
\<close>

theorem get_guidelines_catches_every_Exception:
  "(get_guidelines rt = Inl r \<longleftrightarrow> (\<exists>name. r = Signal name) \<and> fetch_from_url rt = Inl r)
   \<and> (get_guidelines rt = Inr s \<longrightarrow>
        s = ERROR_MESSAGE
        \<or> (\<exists>html. fetch_from_url rt = Inr html \<and> parse_content rt html = Inr s
                   \<and> s \<noteq> [] \<and> strip s \<noteq> []))
   \<and> (fetch_from_url rt = Inl (Exception e) \<longrightarrow> get_guidelines rt = Inr ERROR_MESSAGE)
   \<and> (fetch_from_url rt = Inr page \<and> html_parser rt page = Inl e
        \<longrightarrow> get_guidelines rt = Inr ERROR_MESSAGE)
   \<and> (fetch_from_url rt = Inr page \<and> parse_content rt page = Inl e
        \<longrightarrow> get_guidelines rt = Inr ERROR_MESSAGE)"
proof (intro conjI impI)
  show "get_guidelines rt = Inl r \<longleftrightarrow> (\<exists>name. r = Signal name) \<and> fetch_from_url rt = Inl r"
    by (auto simp: get_guidelines_def get_guidelines_try_def
          split: sum.splits raised.splits if_splits)
next
  assume "get_guidelines rt = Inr s"
  then show "s = ERROR_MESSAGE
        \<or> (\<exists>html. fetch_from_url rt = Inr html \<and> parse_content rt html = Inr s
                   \<and> s \<noteq> [] \<and> strip s \<noteq> [])"
    by (auto simp: get_guidelines_def get_guidelines_try_def
          split: sum.splits raised.splits if_splits)
next
  assume "fetch_from_url rt = Inl (Exception e)"
  then show "get_guidelines rt = Inr ERROR_MESSAGE"
    by (simp add: get_guidelines_def get_guidelines_try_def)
next
  assume "fetch_from_url rt = Inr page \<and> html_parser rt page = Inl e"
  then show "get_guidelines rt = Inr ERROR_MESSAGE"
    by (auto simp: get_guidelines_def get_guidelines_try_def parse_content_def strip_Nil
          split: sum.splits)
next
  assume "fetch_from_url rt = Inr page \<and> parse_content rt page = Inl e"
  then show "get_guidelines rt = Inr ERROR_MESSAGE"
    by (simp add: get_guidelines_def get_guidelines_try_def)
qed

theorem get_guidelines_catches_every_Exception_witness:
  "fetch_from_url failing_fetch_rt = Inl (Exception (OtherException ''ConnectTimeout''))
   \<and> get_guidelines failing_fetch_rt = Inr ERROR_MESSAGE
   \<and> fetch_from_url failing_parser_rt = Inr (py ''<![x]>'')
   \<and> html_parser failing_parser_rt (py ''<![x]>'') = Inl (OtherException ''ParserRejectedMarkup'')
   \<and> parse_content failing_parser_rt (py ''<![x]>'') = Inl (OtherException ''ParserRejectedMarkup'')
   \<and> get_guidelines failing_parser_rt = Inr ERROR_MESSAGE
   \<and> fetch_from_url hello_rt = Inr (py ''<p>Hello</p>'')
   \<and> parse_content hello_rt (py ''<p>Hello</p>'') = Inr (py ''Hello'')
   \<and> get_guidelines hello_rt = Inr (py ''Hello'')
   \<and> fetch_from_url cancelled_rt = Inl (Signal ''CancelledError'')
   \<and> get_guidelines cancelled_rt = Inl (Signal ''CancelledError'')"
proof -
  have f1: "fetch_from_url failing_fetch_rt = Inl (Exception (OtherException ''ConnectTimeout''))"
    by (simp add: failing_fetch_rt_def)
  have f2: "fetch_from_url failing_parser_rt = Inr (py ''<![x]>'')"
    and p2: "html_parser failing_parser_rt (py ''<![x]>'')
             = Inl (OtherException ''ParserRejectedMarkup'')"
    by (simp_all add: failing_parser_rt_def hello_rt_def py_def ch_def)
  have c2: "parse_content failing_parser_rt (py ''<![x]>'')
            = Inl (OtherException ''ParserRejectedMarkup'')"
    using p2 by (simp add: parse_content_def str_eval)
  have f3: "fetch_from_url hello_rt = Inr (py ''<p>Hello</p>'')"
    by (simp add: hello_rt_def)
  have c3: "parse_content hello_rt (py ''<p>Hello</p>'') = Inr (py ''Hello'')"
    by (simp add: hello_rt_def fetcher_eval dom_eval str_eval)
  have f4: "fetch_from_url cancelled_rt = Inl (Signal ''CancelledError'')"
    by (simp add: cancelled_rt_def)
  from get_guidelines_catches_every_Exception
         [of failing_fetch_rt _ _ "OtherException ''ConnectTimeout''"] f1
  have r1: "get_guidelines failing_fetch_rt = Inr ERROR_MESSAGE" by blast
  from get_guidelines_catches_every_Exception
         [of failing_parser_rt _ _ "OtherException ''ParserRejectedMarkup''" "py ''<![x]>''"]
       f2 p2
  have r2: "get_guidelines failing_parser_rt = Inr ERROR_MESSAGE" by blast
  from get_guidelines_catches_every_Exception
         [of cancelled_rt "Signal ''CancelledError''"] f4
  have r4: "get_guidelines cancelled_rt = Inl (Signal ''CancelledError'')" by blast
  have r3: "get_guidelines hello_rt = Inr (py ''Hello'')"
    using f3 c3 by (simp add: get_guidelines_def get_guidelines_try_def str_eval)
  from get_guidelines_catches_every_Exception [of hello_rt _ "py ''Hello''"] r3
  have "py ''Hello'' = ERROR_MESSAGE
        \<or> (\<exists>html. fetch_from_url hello_rt = Inr html
                   \<and> parse_content hello_rt html = Inr (py ''Hello''))"
    by blast
  from f1 f2 p2 c2 f3 c3 f4 r1 r2 r3 r4 show ?thesis by blast
qed

text \<open>
  C2, as the specification states it: when the assembled result is empty, the pipeline
  falls back to the text of the whole page. The page below has a located payload of ten
  items, all with the heading \<open>NA\<close>, and the visible text \<open>Hello\<close>: the assembled result
  is empty, the text of the page is not, and \<open>get_guidelines\<close> returns the sentinel, not
  the text.
\<close>

theorem empty_assembly_falls_back_counterexample:
  "fetch_from_url (page_rt all_NA_items) = Inr (py ''<html>'')
   \<and> html_parser (page_rt all_NA_items) (py ''<html>'') = Inr script_page
   \<and> extract_json_data (page_rt all_NA_items) (BeautifulSoup script_page)
       = Inr (Some all_NA_items)
   \<and> process_json_data (page_rt all_NA_items) all_NA_items = Inr []
   \<and> extract_all_text (BeautifulSoup script_page) = py ''Hello''
   \<and> strip (py ''Hello'') \<noteq> []
   \<and> get_guidelines (page_rt all_NA_items) = Inr ERROR_MESSAGE
   \<and> get_guidelines (page_rt all_NA_items) \<noteq> Inr (extract_all_text (BeautifulSoup script_page))"
proof -
  have a: "extract_json_data (page_rt all_NA_items) (BeautifulSoup script_page)
       = Inr (Some all_NA_items)"
    by (simp add: page_rt_def script_page_def all_NA_items_def
          extract_json_data_def json_eval dom_eval py_def ch_def replicate_numeral)
  have b: "process_json_data (page_rt all_NA_items) all_NA_items = Inr []"
    by (simp add: all_NA_items_def json_eval py_def ch_def replicate_numeral)
  have c: "extract_all_text (BeautifulSoup script_page) = py ''Hello''"
    by (simp add: script_page_def extract_all_text_def split.simps dom_eval str_eval)
  have d: "get_guidelines (page_rt all_NA_items) = Inr ERROR_MESSAGE"
    using a b
    by (simp add: get_guidelines_def get_guidelines_try_def parse_content_def Let_def
          page_rt_def all_NA_items_def replicate_numeral str_eval)
  have e: "ERROR_MESSAGE \<noteq> py ''Hello''"
    by (simp add: ERROR_MESSAGE_def py_def ch_def)
  from a b c d e show ?thesis
    by (simp add: page_rt_def str_eval)
qed

text \<open>
  C2, amended. A blank document is answered with the sentinel. For any other fetched
  document that the parser accepts: when the locator succeeds, the assembler's result is
  returned when it is non-empty and the sentinel when it is empty (no fallback); when the
  locator finds nothing, the result is the text of the whole page (all visible text, split
  at line breaks, each line stripped, the empty ones dropped, rejoined with single line
  breaks), and the sentinel only when that text is empty or whitespace-only.
\<close>

theorem empty_assembly_is_a_failure:
  "(fetch_from_url rt = Inr html \<and> strip html = [] \<longrightarrow> get_guidelines rt = Inr ERROR_MESSAGE)
   \<and> (fetch_from_url rt = Inr html \<and> strip html \<noteq> [] \<and> html_parser rt html = Inr children
        \<longrightarrow>
        (extract_json_data rt (BeautifulSoup children) = Inr (Some items)
          \<and> process_json_data rt items = Inr doc \<and> doc \<noteq> []
          \<longrightarrow> get_guidelines rt = Inr doc)
        \<and> (extract_json_data rt (BeautifulSoup children) = Inr (Some items)
          \<and> process_json_data rt items = Inr []
          \<longrightarrow> get_guidelines rt = Inr ERROR_MESSAGE)
        \<and> (extract_json_data rt (BeautifulSoup children) = Inr None
          \<longrightarrow> get_guidelines rt =
               Inr (if strip (extract_all_text (BeautifulSoup children)) = []
                    then ERROR_MESSAGE else extract_all_text (BeautifulSoup children))))
   \<and> extract_all_text soup =
         join (py ''\<newline>'')
           (map strip (filter (\<lambda>line. strip line \<noteq> [])
              (split (py ''\<newline>'') (get_text soup (py ''\<newline>'') True))))"
proof (intro conjI)
  show "fetch_from_url rt = Inr html \<and> strip html = [] \<longrightarrow>
        get_guidelines rt = Inr ERROR_MESSAGE"
    by (simp add: get_guidelines_def get_guidelines_try_def parse_content_def strip_Nil)
next
  show "fetch_from_url rt = Inr html \<and> strip html \<noteq> [] \<and> html_parser rt html = Inr children
        \<longrightarrow>
        (extract_json_data rt (BeautifulSoup children) = Inr (Some items)
          \<and> process_json_data rt items = Inr doc \<and> doc \<noteq> []
          \<longrightarrow> get_guidelines rt = Inr doc)
        \<and> (extract_json_data rt (BeautifulSoup children) = Inr (Some items)
          \<and> process_json_data rt items = Inr []
          \<longrightarrow> get_guidelines rt = Inr ERROR_MESSAGE)
        \<and> (extract_json_data rt (BeautifulSoup children) = Inr None
          \<longrightarrow> get_guidelines rt =
               Inr (if strip (extract_all_text (BeautifulSoup children)) = []
                    then ERROR_MESSAGE else extract_all_text (BeautifulSoup children)))"
    using parse_result_cases [of rt html children items doc] by blast
next
  show "extract_all_text soup =
         join (py ''\<newline>'')
           (map strip (filter (\<lambda>line. strip line \<noteq> [])
              (split (py ''\<newline>'') (get_text soup (py ''\<newline>'') True))))"
    by (simp add: extract_all_text_def Let_def)
qed

theorem empty_assembly_is_a_failure_witness:
  "fetch_from_url (page_rt one_valid_items) = Inr (py ''<html>'')
   \<and> html_parser (page_rt one_valid_items) (py ''<html>'') = Inr script_page
   \<and> strip (py ''<html>'') \<noteq> []
   \<and> extract_json_data (page_rt one_valid_items) (BeautifulSoup script_page)
       = Inr (Some one_valid_items)
   \<and> process_json_data (page_rt one_valid_items) one_valid_items
       = Inr (py ''## Accounts\<newline>\<newline>### Billing\<newline>\<newline>Pay'')
   \<and> get_guidelines (page_rt one_valid_items)
       = Inr (py ''## Accounts\<newline>\<newline>### Billing\<newline>\<newline>Pay'')
   \<and> extract_json_data (page_rt all_NA_items) (BeautifulSoup script_page)
       = Inr (Some all_NA_items)
   \<and> process_json_data (page_rt all_NA_items) all_NA_items = Inr []
   \<and> get_guidelines (page_rt all_NA_items) = Inr ERROR_MESSAGE
   \<and> extract_json_data (page_rt nine_items) (BeautifulSoup script_page) = Inr None
   \<and> extract_all_text (BeautifulSoup script_page) = py ''Hello''
   \<and> get_guidelines (page_rt nine_items) = Inr (py ''Hello'')
   \<and> fetch_from_url blank_rt = Inr (py ''  '') \<and> strip (py ''  '') = []
   \<and> get_guidelines blank_rt = Inr ERROR_MESSAGE"
proof -
  have bl: "fetch_from_url blank_rt = Inr (py ''  '')" "strip (py ''  '') = []"
    by (simp_all add: blank_rt_def example_rt_def str_eval)
  have f: "fetch_from_url (page_rt items) = Inr (py ''<html>'')"
    and p: "html_parser (page_rt items) (py ''<html>'') = Inr script_page" for items
    by (simp_all add: page_rt_def)
  have s: "strip (py ''<html>'') \<noteq> []"
    by (simp add: str_eval)
  have a1: "extract_json_data (page_rt one_valid_items) (BeautifulSoup script_page)
       = Inr (Some one_valid_items)"
    by (simp add: page_rt_def script_page_def one_valid_items_def
          extract_json_data_def json_eval dom_eval py_def ch_def replicate_numeral)
  have a2: "process_json_data (page_rt one_valid_items) one_valid_items
       = Inr (py ''## Accounts\<newline>\<newline>### Billing\<newline>\<newline>Pay'')"
    by (simp add: page_rt_def one_valid_items_def paragraph_parser_def json_eval dom_eval
          str_eval replicate_numeral)
  have a3: "py ''## Accounts\<newline>\<newline>### Billing\<newline>\<newline>Pay'' \<noteq> []"
    by (simp add: py_def)
  have b1: "extract_json_data (page_rt all_NA_items) (BeautifulSoup script_page)
       = Inr (Some all_NA_items)"
    by (simp add: page_rt_def script_page_def all_NA_items_def
          extract_json_data_def json_eval dom_eval py_def ch_def replicate_numeral)
  have b2: "process_json_data (page_rt all_NA_items) all_NA_items = Inr []"
    by (simp add: all_NA_items_def json_eval py_def ch_def replicate_numeral)
  have c2: "extract_all_text (BeautifulSoup script_page) = py ''Hello''"
    by (simp add: script_page_def extract_all_text_def split.simps dom_eval str_eval)
  have c3: "strip (py ''Hello'') \<noteq> []"
    by (simp add: str_eval)
  from empty_assembly_is_a_failure
         [of "page_rt one_valid_items" "py ''<html>''" script_page one_valid_items]
       f p s a1 a2 a3
  have r1: "get_guidelines (page_rt one_valid_items)
       = Inr (py ''## Accounts\<newline>\<newline>### Billing\<newline>\<newline>Pay'')"
    by blast
  from empty_assembly_is_a_failure
         [of "page_rt all_NA_items" "py ''<html>''" script_page all_NA_items]
       f p s b1 b2
  have r2: "get_guidelines (page_rt all_NA_items) = Inr ERROR_MESSAGE"
    by blast
  from empty_assembly_is_a_failure
         [of "page_rt nine_items" "py ''<html>''" script_page]
       f p s nine_items_absent
  have "get_guidelines (page_rt nine_items) =
          Inr (if strip (extract_all_text (BeautifulSoup script_page)) = []
               then ERROR_MESSAGE else extract_all_text (BeautifulSoup script_page))"
    by blast
  with c2 c3 have r3: "get_guidelines (page_rt nine_items) = Inr (py ''Hello'')"
    by simp
  from empty_assembly_is_a_failure [of blank_rt "py ''  ''"]
  have r4: "get_guidelines blank_rt = Inr ERROR_MESSAGE"
    by (simp add: blank_rt_def example_rt_def str_eval)
  from f p s a1 a2 b1 b2 nine_items_absent c2 r1 r2 r3 r4 bl show ?thesis by blast
qed




text \<open>
  C4. The item \<open>{"fields": null}\<close> has no \<open>fields.itemHeading\<close>, so the claim has it
  skipped as if it were deleted. \<open>_is_valid_item\<close> checks that the key \<open>fields\<close> is present
  and calls \<open>.get\<close> on its value, which raises \<open>AttributeError\<close> on a value that is not a
  mapping: the assembler raises on the sequence with the item and assembles the sequence
  without it. (\<open>_extract_category\<close> guards every level with \<open>isinstance\<close>.)
\<close>

theorem null_fields_item_loses_the_document:
  "is_valid_item null_fields_item = Inl AttributeError
   \<and> process_json_data text_rt
        [guide_item ''Accounts'' ''Billing'' ''Pay'', null_fields_item,
         guide_item ''Accounts'' ''Refunds'' ''Ask'']
       = Inl AttributeError
   \<and> process_json_data text_rt
        [guide_item ''Accounts'' ''Billing'' ''Pay'', guide_item ''Accounts'' ''Refunds'' ''Ask'']
       = Inr (py ''## Accounts\<newline>\<newline>### Billing\<newline>\<newline>Pay\<newline>\<newline>### Refunds\<newline>\<newline>Ask'')"
  by (simp add: null_fields_item_def text_rt_def hello_rt_def json_eval dom_eval str_eval
        Let_def)



text \<open>
  C6, as the specification states it: the first \<open>tr\<close> is always rendered as a header row
  followed by a separator row. The table below has a first row without cells: the
  conversion has neither header nor separator.
\<close>

theorem first_row_always_header_counterexample:
  "find_all table_empty_header [py ''tr'']
     = [Tag (py ''tr'') [] [], Tag (py ''tr'') [] [cell ''td'' ''a'']]
   \<and> convert_table table_empty_header = py ''| a |''
   \<and> convert_table table_empty_header
       \<noteq> join (py ''\<newline>'')
           (table_line (row_cells (Tag (py ''tr'') [] []))
            # table_line (replicate (length (row_cells (Tag (py ''tr'') [] []))) (py ''---''))
            # map (\<lambda>row. table_line (row_cells row)) [Tag (py ''tr'') [] [cell ''td'' ''a'']])"
proof -
  have a: "find_all table_empty_header [py ''tr'']
     = [Tag (py ''tr'') [] [], Tag (py ''tr'') [] [cell ''td'' ''a'']]"
    by (simp add: table_empty_header_def cell_def dom_eval py_def ch_def)
  have b: "join (py ''\<newline>'')
           (table_line (row_cells (Tag (py ''tr'') [] []))
            # table_line (replicate (length (row_cells (Tag (py ''tr'') [] []))) (py ''---''))
            # map (\<lambda>row. table_line (row_cells row)) [Tag (py ''tr'') [] [cell ''td'' ''a'']])
        = py ''|  |\<newline>|  |\<newline>| a |''"
    by (simp add: table_eval dom_eval str_eval)
  have "py ''| a |'' \<noteq> py ''|  |\<newline>|  |\<newline>| a |''"
    by (simp add: py_def ch_def)
  with a b table_empty_header_value show ?thesis by simp
qed

text \<open>
  C6, amended. A table without rows converts to the empty string. A first \<open>tr\<close> with at
  least one cell is rendered as a pipe-delimited header row followed by one separator row
  with \<open>---\<close> once per header cell; a first \<open>tr\<close> without cells contributes no line. Each
  later \<open>tr\<close> with at least one cell is rendered as a pipe-delimited row; one without
  cells contributes no line. The table with the header \<open>[H1, H2]\<close> and the row \<open>[a, b]\<close>
  converts as the specification says.
\<close>

theorem rows_with_cells_rendered:
  "(find_all table [py ''tr''] = [] \<longrightarrow> convert_table table = [])
   \<and> (find_all table [py ''tr''] = header_row # data_rows \<and> row_cells header_row \<noteq> [] \<longrightarrow>
        convert_table table =
          join (py ''\<newline>'')
            (table_line (row_cells header_row)
             # table_line (replicate (length (row_cells header_row)) (py ''---''))
             # map table_line (filter (\<lambda>cells. cells \<noteq> []) (map row_cells data_rows))))
   \<and> (find_all table [py ''tr''] = header_row # data_rows \<and> row_cells header_row = [] \<longrightarrow>
        convert_table table =
          join (py ''\<newline>'')
            (map table_line (filter (\<lambda>cells. cells \<noteq> []) (map row_cells data_rows))))
   \<and> convert_table table_H_a = py ''| H1 | H2 |\<newline>| --- | --- |\<newline>| a | b |''"
proof (intro conjI impI)
  show "convert_table table_H_a = py ''| H1 | H2 |\<newline>| --- | --- |\<newline>| a | b |''"
    by (rule table_H_a_value)
qed (simp_all add: convert_table_def Let_def)

theorem rows_with_cells_rendered_witness:
  "find_all table_no_rows [py ''tr''] = [] \<and> convert_table table_no_rows = []
   \<and> find_all table_H_a [py ''tr'']
       = Tag (py ''tr'') [] [cell ''th'' ''H1'', cell ''th'' ''H2'']
         # [Tag (py ''tr'') [] [cell ''td'' ''a'', cell ''td'' ''b'']]
   \<and> row_cells (Tag (py ''tr'') [] [cell ''th'' ''H1'', cell ''th'' ''H2'']) = [py ''H1'', py ''H2'']
   \<and> convert_table table_H_a = py ''| H1 | H2 |\<newline>| --- | --- |\<newline>| a | b |''
   \<and> find_all table_empty_header [py ''tr'']
       = Tag (py ''tr'') [] [] # [Tag (py ''tr'') [] [cell ''td'' ''a'']]
   \<and> row_cells (Tag (py ''tr'') [] []) = []
   \<and> convert_table table_empty_header = py ''| a |''"
proof -
  have a: "find_all table_no_rows [py ''tr''] = []"
    by (simp add: table_no_rows_def dom_eval)
  have b: "find_all table_H_a [py ''tr'']
       = Tag (py ''tr'') [] [cell ''th'' ''H1'', cell ''th'' ''H2'']
         # [Tag (py ''tr'') [] [cell ''td'' ''a'', cell ''td'' ''b'']]"
    by (simp add: table_H_a_def cell_def dom_eval py_def ch_def)
  have c: "row_cells (Tag (py ''tr'') [] [cell ''th'' ''H1'', cell ''th'' ''H2''])
           = [py ''H1'', py ''H2'']"
    by (simp add: table_eval dom_eval str_eval)
  have d: "find_all table_empty_header [py ''tr'']
       = Tag (py ''tr'') [] [] # [Tag (py ''tr'') [] [cell ''td'' ''a'']]"
    by (simp add: table_empty_header_def cell_def dom_eval py_def ch_def)
  have e: "row_cells (Tag (py ''tr'') [] []) = []"
    by (simp add: table_eval dom_eval)
  from rows_with_cells_rendered [of table_no_rows] a
  have r1: "convert_table table_no_rows = []" by blast
  from c have "row_cells (Tag (py ''tr'') [] [cell ''th'' ''H1'', cell ''th'' ''H2'']) \<noteq> []"
    by simp
  with rows_with_cells_rendered
         [of table_H_a "Tag (py ''tr'') [] [cell ''th'' ''H1'', cell ''th'' ''H2'']"
            "[Tag (py ''tr'') [] [cell ''td'' ''a'', cell ''td'' ''b'']]"] b
  have "convert_table table_H_a =
          join (py ''\<newline>'')
            (table_line (row_cells (Tag (py ''tr'') [] [cell ''th'' ''H1'', cell ''th'' ''H2'']))
             # table_line (replicate
                  (length (row_cells (Tag (py ''tr'') [] [cell ''th'' ''H1'', cell ''th'' ''H2''])))
                  (py ''---''))
             # map table_line (filter (\<lambda>cells. cells \<noteq> [])
                  (map row_cells [Tag (py ''tr'') [] [cell ''td'' ''a'', cell ''td'' ''b'']])))"
    by blast
  then have r2: "convert_table table_H_a
                 = py ''| H1 | H2 |\<newline>| --- | --- |\<newline>| a | b |''"
    by (simp add: table_eval dom_eval str_eval replicate_numeral)
  from rows_with_cells_rendered
         [of table_empty_header "Tag (py ''tr'') [] []"
            "[Tag (py ''tr'') [] [cell ''td'' ''a'']]"] d e
  have "convert_table table_empty_header =
          join (py ''\<newline>'')
            (map table_line (filter (\<lambda>cells. cells \<noteq> [])
               (map row_cells [Tag (py ''tr'') [] [cell ''td'' ''a'']])))"
    by blast
  then have r3: "convert_table table_empty_header = py ''| a |''"
    by (simp add: table_eval dom_eval str_eval)
  from a b c d e r1 r2 r3 show ?thesis by blast
qed






text \<open>
  C9. When the located item sequence contains, after its first element, an item whose
  \<open>fields\<close> value is present but not a mapping, \<open>_is_valid_item\<close> raises
  \<open>AttributeError\<close> on it, the assembler raises, and \<open>get_guidelines\<close> returns the
  sentinel for the whole document instead of skipping the item.
\<close>

theorem malformed_fields_fails_whole_document:
  assumes "fetch_from_url rt = Inr html" and "strip html \<noteq> []"
    and "html_parser rt html = Inr children"
    and "extract_json_data rt (BeautifulSoup children) = Inr (Some items)"
    and "item \<in> set (tl items)" and "fields_not_a_mapping item"
  shows "is_valid_item item = Inl AttributeError
         \<and> (\<exists>e. process_json_data rt items = Inl e)
         \<and> get_guidelines rt = Inr ERROR_MESSAGE"
proof -
  have v: "is_valid_item item = Inl AttributeError"
    using assms(6) by (rule fields_not_a_mapping_raises)
  from assms(5) have mem: "item \<in> set items" and ne: "items \<noteq> []"
    by (cases items; simp)+
  from process_items_raises [OF mem v] obtain e' where
    "process_items rt items [] None = Inl e'" by blast
  then have p: "process_json_data rt items = Inl e'"
    by (simp add: process_json_data_def)
  from assms(2) have "html \<noteq> []" using strip_Nil by auto
  with assms p ne have "parse_content rt html = Inl e'"
    by (simp add: parse_content_def Let_def)
  with assms(1) have "get_guidelines rt = Inr ERROR_MESSAGE"
    by (simp add: get_guidelines_def get_guidelines_try_def)
  with v p show ?thesis by blast
qed

theorem malformed_fields_fails_whole_document_witness:
  "fetch_from_url (page_rt malformed_items) = Inr (py ''<html>'')
   \<and> html_parser (page_rt malformed_items) (py ''<html>'') = Inr script_page
   \<and> extract_json_data (page_rt malformed_items) (BeautifulSoup script_page)
       = Inr (Some malformed_items)
   \<and> malformed_items ! 1 = malformed_item
   \<and> fields_not_a_mapping malformed_item
   \<and> is_valid_item malformed_item = Inl AttributeError
   \<and> process_json_data (page_rt malformed_items) malformed_items = Inl AttributeError
   \<and> get_guidelines (page_rt malformed_items) = Inr ERROR_MESSAGE"
proof -
  have a: "fetch_from_url (page_rt malformed_items) = Inr (py ''<html>'')"
    and b: "strip (py ''<html>'') \<noteq> []"
    and c: "html_parser (page_rt malformed_items) (py ''<html>'') = Inr script_page"
    by (simp_all add: page_rt_def str_eval)
  have d: "malformed_item \<in> set (tl malformed_items)"
    by (simp add: malformed_items_def)
  have e: "fields_not_a_mapping malformed_item"
    by (simp add: fields_not_a_mapping_def malformed_item_def)
  have f: "process_json_data (page_rt malformed_items) malformed_items = Inl AttributeError"
    by (simp add: page_rt_def malformed_items_def malformed_item_def paragraph_parser_def
          json_eval dom_eval str_eval Let_def)
  from malformed_fields_fails_whole_document [OF a b c locate_malformed d e] a c e f
    locate_malformed
  show ?thesis by (simp add: malformed_items_def)
qed



end
